theory Spec2Isabelle
  imports Complex_Main "HOL-Library.Word"
begin

section \<open>Errors and numeric conventions\<close>

text \<open>
  The two C++ sources throw in two ways: the \<^verbatim>\<open>ASSERT_\<close> macro (an exception raised
  when its condition is false) and an explicit \<^verbatim>\<open>throw std::runtime_error("Invalid wheel index")\<close>.
  Executions to which C++ gives no meaning (reading through an empty \<^verbatim>\<open>std::optional\<close>,
  dereferencing a null cell pointer, indexing a \<^verbatim>\<open>std::vector\<close> past its end) are a third,
  separate outcome, so that no theorem silently covers them.
\<close>

datatype error = AssertionFailed | InvalidWheelIndex | UndefinedBehaviour

text \<open>
  Numbers of type \<^verbatim>\<open>double\<close> and \<^verbatim>\<open>float\<close> are modelled by the reals: rounding and
  overflow are left out. What IEEE arithmetic makes of a division by zero or of the square
  root of a negative number is written out, since HOL's \<open>x / 0 = 0\<close> and \<open>sqrt\<close> of a
  negative number are not what the program computes: a value of type \<open>real option\<close> is
  \<open>None\<close> when the program's number is a NaN or an infinity.
\<close>

definition fdiv :: "real \<Rightarrow> real \<Rightarrow> real option" where
  "fdiv a b = (if b = 0 then None else Some (a / b))"

definition fsqrt :: "real \<Rightarrow> real option" where
  "fsqrt a = (if a < 0 then None else Some (sqrt a))"

section \<open>EllipseCurveMethod: the tire friction model\<close>

subsection \<open>Heaviside and saturation helpers\<close>

definition miH :: "real \<Rightarrow> real \<Rightarrow> real" where
  "miH x x0 = (if x > x0 then 1 else 0)"

definition miS :: "real \<Rightarrow> real \<Rightarrow> real" where
  "miS x x0 = x * miH x0 \<bar>x\<bar> + x0 * miH \<bar>x\<bar> x0"

subsection \<open>Data\<close>

text \<open>The class \<^verbatim>\<open>Wheel\<close>; \<^verbatim>\<open>getPhi\<close>, \<^verbatim>\<open>getW\<close> and \<^verbatim>\<open>setW\<close> read and write
  the fields \<^verbatim>\<open>phi\<close> and \<^verbatim>\<open>w\<close>.\<close>

record Wheel =
  wheel_x :: real
  wheel_y :: real
  wheel_yaw :: real
  diameter :: real
  wheel_width :: real
  wheel_mass :: real
  Iyy :: real
  phi :: real
  wheel_w :: real

text \<open>What \<^verbatim>\<open>evaluate_friction\<close> reads from \<^verbatim>\<open>myVehicle_\<close>: the local twist, the chassis
  mass, the world's gravity, the chassis centre of mass, the wheels and the linear acceleration.\<close>

record Vehicle =
  vel_vx :: real
  vel_vy :: real
  vel_omega :: real
  chassisMass :: real
  gravity :: real
  com_x :: real
  com_y :: real
  wheels :: "Wheel list"
  linAcc_x :: real
  linAcc_y :: real

text \<open>The coefficients set by the constructor (\<^verbatim>\<open>CA_(8), Caf_(8.5), Cs_(7.5), ss_(0.1),
  Cafs_(0.5), Csaf_(0.5)\<close>) and overridable from the XML node.\<close>

record FrictionParams =
  CA :: real
  Caf :: real
  Cs :: real
  ss :: real
  Cafs :: real
  Csaf :: real

definition default_params :: FrictionParams where
  "default_params = \<lparr> CA = 8, Caf = 17 / 2, Cs = 15 / 2, ss = 1 / 10, Cafs = 1 / 2, Csaf = 1 / 2 \<rparr>"

text \<open>\<^verbatim>\<open>TFrictionInput\<close>: the wheel (a mutable reference), the motor torque and the time step.
  The function body also reads an identifier \<^verbatim>\<open>wheel\<close> which it never declares (the index of
  the wheel under evaluation); it is the field \<open>wheel_index\<close> here.\<close>

record FrictionInput =
  wheel :: Wheel
  motorTorque :: real
  dt :: real
  wheel_index :: int

text \<open>The outputs: the returned force (in the vehicle frame) and the angular velocity written
  back to the caller's wheel by \<^verbatim>\<open>setW\<close>; \<open>None\<close> stands for a NaN or an infinity.\<close>

record FrictionOutput =
  force :: "(real \<times> real) option"
  new_w :: "real option"

subsection \<open>Stage 1: geometry and vertical load\<close>

definition wheel_pos :: "Vehicle \<Rightarrow> (real \<times> real) list" where
  "wheel_pos v = map (\<lambda>wp. (wheel_x wp - com_x v, wheel_y wp - com_y v)) (wheels v)"

definition hcog :: real where
  "hcog = 2 / 5"

definition axle_a1 :: "Vehicle \<Rightarrow> real" where
  "axle_a1 v = \<bar>fst (wheel_pos v ! 3)\<bar>"

definition axle_a2 :: "Vehicle \<Rightarrow> real" where
  "axle_a2 v = \<bar>fst (wheel_pos v ! 0)\<bar>"

definition wheelbase :: "Vehicle \<Rightarrow> real" where
  "wheelbase v = axle_a1 v + axle_a2 v"

definition Axf :: "Vehicle \<Rightarrow> real" where
  "Axf v = \<bar>snd (wheel_pos v ! 2)\<bar> + \<bar>snd (wheel_pos v ! 3)\<bar>"

definition Axr :: "Vehicle \<Rightarrow> real" where
  "Axr v = \<bar>snd (wheel_pos v ! 0)\<bar> + \<bar>snd (wheel_pos v ! 1)\<bar>"

text \<open>The four branches of the load-transfer formula, for a finite quotient \<open>q\<close> standing
  for \<^verbatim>\<open>m / (l * Axf * gravity)\<close> or \<^verbatim>\<open>m / (l * Axr * gravity)\<close>.\<close>

definition long_term :: "Vehicle \<Rightarrow> real" where
  "long_term v = hcog * (linAcc_x v - vel_omega v * vel_vy v)"

definition lat_term :: "Vehicle \<Rightarrow> real" where
  "lat_term v = hcog * (linAcc_y v + vel_omega v * vel_vx v)"

definition Fz :: "Vehicle \<Rightarrow> int \<Rightarrow> error + real option" where
  "Fz v k =
    (if length (wheels v) < 4 then Inl UndefinedBehaviour
     else if \<not> Axf v > 0 then Inl AssertionFailed
     else if \<not> Axr v > 0 then Inl AssertionFailed
     else if k = 3 then
       Inr (map_option
         (\<lambda>q. q * (axle_a2 v * gravity v - long_term v) *
                  (\<bar>snd (wheel_pos v ! 1)\<bar> * gravity v - lat_term v))
         (fdiv (chassisMass v) (wheelbase v * Axf v * gravity v)))
     else if k = 2 then
       Inr (map_option
         (\<lambda>q. q * (axle_a2 v * gravity v - long_term v) *
                  (\<bar>snd (wheel_pos v ! 0)\<bar> * gravity v + lat_term v))
         (fdiv (chassisMass v) (wheelbase v * Axf v * gravity v)))
     else if k = 1 then
       Inr (map_option
         (\<lambda>q. q * (axle_a1 v * gravity v + long_term v) *
                  (\<bar>snd (wheel_pos v ! 3)\<bar> * gravity v - lat_term v))
         (fdiv (chassisMass v) (wheelbase v * Axr v * gravity v)))
     else if k = 0 then
       Inr (map_option
         (\<lambda>q. q * (axle_a1 v * gravity v + long_term v) *
                  (\<bar>snd (wheel_pos v ! 2)\<bar> * gravity v + lat_term v))
         (fdiv (chassisMass v) (wheelbase v * Axr v * gravity v)))
     else Inl InvalidWheelIndex)"

text \<open>\<^verbatim>\<open>double max_friction = Fz;\<close> The source declares \<^verbatim>\<open>double Fz\<close> anew inside each of
  the four branches and reads \<^verbatim>\<open>Fz\<close> after them, where none of the four is in scope. The
  four are read here as one variable: \<open>Fz v k\<close> is the value assigned in the branch taken,
  and it is the value that \<^verbatim>\<open>max_friction\<close> receives.\<close>

definition max_friction :: "Vehicle \<Rightarrow> int \<Rightarrow> error + real option" where
  "max_friction v k = Fz v k"

subsection \<open>Stages 2 to 4: contact velocity, slip, sideslip\<close>

text \<open>The source writes \<^verbatim>\<open>pos.x\<close> and \<^verbatim>\<open>pos.y\<close> on the vector of wheel positions; the
  position meant is that of the wheel under evaluation, \<^verbatim>\<open>pos[wheel]\<close>, which is within range
  once stage 1 has accepted the index.\<close>

definition this_pos :: "Vehicle \<Rightarrow> int \<Rightarrow> real \<times> real" where
  "this_pos v k = wheel_pos v ! nat k"

definition vxT :: "Vehicle \<Rightarrow> FrictionInput \<Rightarrow> real" where
  "vxT v inp =
    (let p = this_pos v (wheel_index inp); delta = phi (wheel inp) in
     (vel_vx v - vel_omega v * snd p) * cos delta + (vel_vy v + vel_omega v * fst p) * sin delta)"

definition radius :: "FrictionInput \<Rightarrow> real" where
  "radius inp = (1 / 2) * diameter (wheel inp)"

text \<open>The slip ratio. With a zero denominator the quotient is a NaN when the numerator is zero
  too, and \<^verbatim>\<open>if (std::isnan(s)) s = 0;\<close> replaces it by zero; with a non-zero numerator it
  is an infinity, which \<^verbatim>\<open>isnan\<close> lets through.\<close>

definition slip :: "Vehicle \<Rightarrow> FrictionInput \<Rightarrow> real option" where
  "slip v inp =
    (let Rw = radius inp * wheel_w (wheel inp);
         vx = vxT v inp;
         num = Rw - vx;
         den = Rw * miH Rw vx + vx * miH vx Rw
     in if den = 0 then (if num = 0 then Some 0 else None) else Some (num / den))"

definition atan2 :: "real \<Rightarrow> real \<Rightarrow> real" where
  "atan2 y x =
    (if x > 0 then arctan (y / x)
     else if x < 0 then (if y \<ge> 0 then arctan (y / x) + pi else arctan (y / x) - pi)
     else if y > 0 then pi / 2
     else if y < 0 then - pi / 2
     else 0)"

definition afs :: real where
  "afs = 5 * pi / 180"

definition sideslip :: "Vehicle \<Rightarrow> FrictionInput \<Rightarrow> real" where
  "sideslip v inp =
    (let p = this_pos v (wheel_index inp) in
     atan2 (vel_vy v + fst p * vel_omega v) (vel_vx v - snd p * vel_omega v) - phi (wheel inp))"

subsection \<open>Stages 5 and 6: the friction ellipse\<close>

text \<open>A factor that is not a finite number makes the product a NaN:
  \<^verbatim>\<open>miS\<close> of an infinite slip is \<^verbatim>\<open>inf * 0 + ss\<close>.\<close>

definition wheel_long_friction ::
  "FrictionParams \<Rightarrow> Vehicle \<Rightarrow> FrictionInput \<Rightarrow> real option \<Rightarrow> real option" where
  "wheel_long_friction P v inp mf =
    (case (mf, slip v inp, fsqrt (1 - Csaf P * (miS (sideslip v inp) afs / afs)\<^sup>2)) of
       (Some f, Some s, Some r) \<Rightarrow> Some (f * Cs P * miS s (ss P) * r)
     | _ \<Rightarrow> None)"

definition wheel_lat_friction ::
  "FrictionParams \<Rightarrow> Vehicle \<Rightarrow> FrictionInput \<Rightarrow> real option \<Rightarrow> real option" where
  "wheel_lat_friction P v inp mf =
    (case (mf, slip v inp) of
       (Some f, Some s) \<Rightarrow>
         (case fdiv (miS s (ss P)) (ss P) of
            Some q \<Rightarrow>
              (case fsqrt (1 - Cafs P * q\<^sup>2) of
                 Some r \<Rightarrow> Some (- f * Caf P * miS (sideslip v inp) afs * r)
               | None \<Rightarrow> None)
          | None \<Rightarrow> None)
     | _ \<Rightarrow> None)"

subsection \<open>Stages 7 and 8: wheel spin update and rotation to the vehicle frame\<close>

definition actual_wheel_alpha :: "FrictionInput \<Rightarrow> real option \<Rightarrow> real option" where
  "actual_wheel_alpha inp lf =
    (case (fdiv (motorTorque inp) (Iyy (wheel inp)), lf) of
       (Some a, Some f) \<Rightarrow>
         (case fdiv (radius inp * f) (Iyy (wheel inp)) of
            Some b \<Rightarrow> Some (a - b)
          | None \<Rightarrow> None)
     | _ \<Rightarrow> None)"

definition composePoint :: "real \<Rightarrow> real \<times> real \<Rightarrow> real \<times> real" where
  "composePoint yaw p = (fst p * cos yaw - snd p * sin yaw, fst p * sin yaw + snd p * cos yaw)"

definition evaluate_friction ::
  "FrictionParams \<Rightarrow> Vehicle \<Rightarrow> FrictionInput \<Rightarrow> error + FrictionOutput" where
  "evaluate_friction P v inp =
    (case max_friction v (wheel_index inp) of
       Inl e \<Rightarrow> Inl e
     | Inr mf \<Rightarrow>
        (let lf = wheel_long_friction P v inp mf;
             tf = wheel_lat_friction P v inp mf
         in Inr \<lparr> force =
                    (case (lf, tf) of
                       (Some a, Some b) \<Rightarrow> Some (composePoint (wheel_yaw (wheel inp)) (a, b))
                     | _ \<Rightarrow> None),
                  new_w = map_option (\<lambda>al. wheel_w (wheel inp) + al * dt inp)
                            (actual_wheel_alpha inp lf) \<rparr>))"

section \<open>Shape2p5: from an occupancy grid to a 2.5D shape\<close>

subsection \<open>Cells and the grid container\<close>

definition CELL_UNDEFINED :: "8 word" where
  "CELL_UNDEFINED = 0x80"

definition CELL_OCCUPIED :: "8 word" where
  "CELL_OCCUPIED = 0x00"

definition CELL_FREE :: "8 word" where
  "CELL_FREE = 0xff"

definition CELL_VISITED :: "8 word" where
  "CELL_VISITED = 0x40"

text \<open>
  Modelled from the spec: the grid container (the dynamic grid of \<^verbatim>\<open>uint8_t\<close> of the
  geometry library), which \<^verbatim>\<open>Shape2p5\<close> only uses and which is not among the sources. The
  spec gives it a bounding rectangle, a fixed resolution (the cell edge length) and a 2D
  array of cells; here these are the lower-left corner \<open>(x_min, y_min)\<close>, the resolution, the
  sizes and a row-major vector of cells, so that the cells cover
  \<open>[x_min, x_min + sizeX * resolution) \<times> [y_min, y_min + sizeY * resolution)\<close>.
  A cell pointer is the position of the cell in the vector. The container keeps the vector
  \<open>sizeX * sizeY\<close> cells long; \<open>cellByIndex\<close> answers with the null pointer outside the
  sizes (a negative \<^verbatim>\<open>int\<close> turns into a huge unsigned index) and, so that it is total,
  also for a position past the end of the vector, which the container's invariant rules out.
\<close>

record Grid =
  sizeX :: nat
  sizeY :: nat
  resolution :: real
  x_min :: real
  y_min :: real
  cells :: "8 word list"




text \<open>Modelled from the spec: the container's conversion from a cell index to a coordinate,
  the centre of the cell, \<^verbatim>\<open>x_min + (cx + 0.5) * resolution\<close>.\<close>

definition idx2x :: "Grid \<Rightarrow> int \<Rightarrow> real" where
  "idx2x g cx = x_min g + (of_int cx + 1 / 2) * resolution g"

text \<open>Modelled from the spec: the same conversion for the other coordinate.\<close>

definition idx2y :: "Grid \<Rightarrow> int \<Rightarrow> real" where
  "idx2y g cy = y_min g + (of_int cy + 1 / 2) * resolution g"

text \<open>Modelled from the spec: the container's lookup of a cell by its indices, null outside
  the sizes.\<close>

definition cellByIndex :: "Grid \<Rightarrow> int \<Rightarrow> int \<Rightarrow> nat option" where
  "cellByIndex g cx cy =
    (if cx < 0 \<or> cy < 0 \<or> cx \<ge> int (sizeX g) \<or> cy \<ge> int (sizeY g) then None
     else (let i = nat cx + nat cy * sizeX g in
           if i < length (cells g) then Some i else None))"


text \<open>A write through a cell pointer, \<^verbatim>\<open>*c = ...\<close>.\<close>

definition writeCell :: "Grid \<Rightarrow> nat \<Rightarrow> 8 word \<Rightarrow> Grid" where
  "writeCell g i c = g\<lparr>cells := (cells g)[i := c]\<rparr>"

subsection \<open>The flood fill\<close>

text \<open>The two lambdas of \<^verbatim>\<open>internalGridFloodFill\<close>.\<close>

definition Inside :: "Grid \<Rightarrow> int \<Rightarrow> int \<Rightarrow> bool" where
  "Inside g x y =
    (if x < 0 \<or> y < 0 then False
     else if x > int (sizeX g) - 1 \<or> y > int (sizeY g) - 1 then False
     else (case cellByIndex g x y of
             None \<Rightarrow> False
           | Some i \<Rightarrow> cells g ! i = CELL_UNDEFINED))"

definition Set_cell :: "Grid \<Rightarrow> int \<Rightarrow> int \<Rightarrow> Grid" where
  "Set_cell g x y =
    (if x < 0 \<or> y < 0 then g
     else if x > int (sizeX g) - 1 \<or> y > int (sizeY g) - 1 then g
     else (case cellByIndex g x y of
             None \<Rightarrow> g
           | Some i \<Rightarrow> writeCell g i CELL_FREE))"

text \<open>The two inner loops, \<^verbatim>\<open>while (Inside(lx - 1, y))\<close> and \<^verbatim>\<open>while (Inside(x, y))\<close>:
  each returns the grid and the final value of its counter. The coordinates stay between
  \<open>-1\<close> and the grid's width, so the unbounded integers of the model never leave the range
  of \<^verbatim>\<open>int\<close>.\<close>

lemma sizeX_Set_cell [simp]: "sizeX (Set_cell g x y) = sizeX g"
  by (simp add: Set_cell_def writeCell_def split: option.splits)

function extend_left :: "Grid \<Rightarrow> int \<Rightarrow> int \<Rightarrow> Grid \<times> int" where
  "extend_left g lx y =
    (if Inside g (lx - 1) y then extend_left (Set_cell g (lx - 1) y) (lx - 1) y else (g, lx))"
  by pat_completeness auto
termination
  by (relation "measure (\<lambda>(g, lx, y). nat lx)") (auto simp: Inside_def split: if_splits)

function extend_right :: "Grid \<Rightarrow> int \<Rightarrow> int \<Rightarrow> Grid \<times> int" where
  "extend_right g x y =
    (if Inside g x y then extend_right (Set_cell g x y) (x + 1) y else (g, x))"
  by pat_completeness auto
termination
  by (relation "measure (\<lambda>(g, x, y). nat (int (sizeX g) - x))") (auto simp: Inside_def split: if_splits)

declare extend_left.simps [simp del] extend_right.simps [simp del]

text \<open>\<^verbatim>\<open>lambdaScan\<close>: the seeds it pushes, in order.\<close>

definition lambdaScan :: "Grid \<Rightarrow> int \<Rightarrow> int \<Rightarrow> int \<Rightarrow> (int \<times> int) list" where
  "lambdaScan g lx rx y =
    fst (fold (\<lambda>x (s, spanAdded).
                 if \<not> Inside g x y then (s, False)
                 else if \<not> spanAdded then (s @ [(x, y)], True)
                 else (s, spanAdded))
              [lx..rx] ([], False))"

definition countU :: "Grid \<Rightarrow> nat" where
  "countU g = count_list (cells g) CELL_UNDEFINED"

lemma count_list_update:
  "i < length xs \<Longrightarrow> xs ! i = u \<Longrightarrow> v \<noteq> u \<Longrightarrow> Suc (count_list (xs[i := v]) u) = count_list xs u"
proof (induction xs arbitrary: i)
  case Nil
  then show ?case by simp
next
  case (Cons a xs)
  then show ?case by (cases i) auto
qed

lemma free_not_undefined: "CELL_FREE \<noteq> CELL_UNDEFINED"
  by (simp add: CELL_FREE_def CELL_UNDEFINED_def)

lemma countU_Set_cell: "Inside g x y \<Longrightarrow> Suc (countU (Set_cell g x y)) = countU g"
  by (auto simp: Inside_def Set_cell_def countU_def writeCell_def cellByIndex_def Let_def
      count_list_update free_not_undefined split: if_splits option.splits)

lemma extend_left_count:
  "extend_left g lx y = (g', lx') \<Longrightarrow> lx' \<le> lx \<and> countU g' + nat (lx - lx') = countU g"
proof (induction g lx y arbitrary: g' lx' rule: extend_left.induct)
  case (1 g lx y)
  show ?case
  proof (cases "Inside g (lx - 1) y")
    case True
    with "1.prems" have e: "extend_left (Set_cell g (lx - 1) y) (lx - 1) y = (g', lx')"
      by (simp add: extend_left.simps[of g])
    from "1.IH"[OF True e] countU_Set_cell[OF True] show ?thesis
      by linarith
  next
    case False
    with "1.prems" show ?thesis by (simp add: extend_left.simps[of g])
  qed
qed

lemma extend_right_count:
  "extend_right g x y = (g', x') \<Longrightarrow> x \<le> x' \<and> countU g' + nat (x' - x) = countU g"
proof (induction g x y arbitrary: g' x' rule: extend_right.induct)
  case (1 g x y)
  show ?case
  proof (cases "Inside g x y")
    case True
    with "1.prems" have e: "extend_right (Set_cell g x y) (x + 1) y = (g', x')"
      by (simp add: extend_right.simps[of g])
    from "1.IH"[OF True e] countU_Set_cell[OF True] show ?thesis
      by linarith
  next
    case False
    with "1.prems" show ?thesis by (simp add: extend_right.simps[of g])
  qed
qed

lemma lambdaScan_empty: "rx < lx \<Longrightarrow> lambdaScan g lx rx y = []"
  by (simp add: lambdaScan_def)

text \<open>One iteration of \<^verbatim>\<open>while (!s.empty())\<close>, after the front \<open>(x, y)\<close> has been
  popped from the queue, leaving \<open>s\<close>; then the loop itself. An iteration that fills no cell
  pushes no seed, so the number of undefined cells and then the length of the queue
  decrease.\<close>

definition fill_step :: "Grid \<Rightarrow> int \<Rightarrow> int \<Rightarrow> (int \<times> int) list \<Rightarrow> Grid \<times> (int \<times> int) list" where
  "fill_step g x y s =
    (case extend_left g x y of (g1, lx) \<Rightarrow>
     case extend_right g1 x y of (g2, x') \<Rightarrow>
       (g2, s @ lambdaScan g2 lx (x' - 1) (y + 1) @ lambdaScan g2 lx (x' - 1) (y - 1)))"

lemma fill_step_decreases:
  assumes "fill_step g x y s = (g2, s2)"
  shows "countU g2 < countU g \<or> (countU g2 = countU g \<and> s2 = s)"
proof -
  obtain g1 lx where l: "extend_left g x y = (g1, lx)" by (cases "extend_left g x y")
  obtain g2' x' where r: "extend_right g1 x y = (g2', x')" by (cases "extend_right g1 x y")
  from assms l r have g2: "g2' = g2"
    and s2: "s2 = s @ lambdaScan g2 lx (x' - 1) (y + 1) @ lambdaScan g2 lx (x' - 1) (y - 1)"
    by (auto simp: fill_step_def)
  from extend_left_count[OF l] extend_right_count[OF r] g2
  have le: "lx \<le> x" "x \<le> x'" and c: "countU g2 + nat (x' - x) + nat (x - lx) = countU g"
    by auto
  show ?thesis
  proof (cases "countU g2 < countU g")
    case True
    then show ?thesis by simp
  next
    case False
    with c le have "lx = x" "x' = x" by auto
    then have "lambdaScan g2 lx (x' - 1) (y + 1) = []" "lambdaScan g2 lx (x' - 1) (y - 1) = []"
      by (simp_all add: lambdaScan_empty)
    with s2 c False show ?thesis by simp
  qed
qed

function fill_loop :: "Grid \<Rightarrow> (int \<times> int) list \<Rightarrow> Grid" where
  "fill_loop g [] = g"
| "fill_loop g ((x, y) # s) = (case fill_step g x y s of (g2, s2) \<Rightarrow> fill_loop g2 s2)"
  by pat_completeness auto
termination
proof (relation "(\<lambda>(g, s). countU g) <*mlex*> measure (\<lambda>(g, s). length s)", goal_cases)
  case 1
  then show ?case by (simp add: wf_mlex)
next
  case (2 g x y s g2 s2)
  then have "fill_step g x y s = (g2, s2)" by simp
  from fill_step_decreases[OF this] show ?case
    by (auto simp: mlex_iff)
qed

definition seedFill :: "Grid \<Rightarrow> Grid" where
  "seedFill g = (if \<not> Inside g 0 0 then g else fill_loop g [(0, 0)])"

subsection \<open>The contour\<close>

definition countOcc :: "Grid \<Rightarrow> nat" where
  "countOcc g = count_list (cells g) CELL_OCCUPIED"

definition neighbourIsFree :: "Grid \<Rightarrow> int \<Rightarrow> int \<Rightarrow> bool" where
  "neighbourIsFree g x y =
    (case cellByIndex g x y of None \<Rightarrow> False | Some c \<Rightarrow> cells g ! c = CELL_FREE)"

definition lambdaCellIsBorder :: "Grid \<Rightarrow> int \<Rightarrow> int \<Rightarrow> bool" where
  "lambdaCellIsBorder g cx cy =
    (case cellByIndex g cx cy of
       None \<Rightarrow> False
     | Some c \<Rightarrow>
         if cells g ! c \<noteq> CELL_OCCUPIED then False
         else if neighbourIsFree g cx (cy - 1) then True
         else if neighbourIsFree g cx (cy + 1) then True
         else if neighbourIsFree g (cx + 1) cy then True
         else if neighbourIsFree g (cx - 1) cy then True
         else False)"

text \<open>Step 1 of \<^verbatim>\<open>internalGridContour\<close>: the scan for the first occupied cell. The
  loop reads \<^verbatim>\<open>*grid_->cellByIndex(cx, cy)\<close> without a null test.\<close>

function firstOccupied :: "Grid \<Rightarrow> int \<Rightarrow> int \<Rightarrow> error + (int \<times> int)" where
  "firstOccupied g cx cy =
    (case cellByIndex g cx cy of
       None \<Rightarrow> Inl UndefinedBehaviour
     | Some c \<Rightarrow>
         if cells g ! c = CELL_OCCUPIED then Inr (cx, cy)
         else if cx + 1 \<ge> int (sizeX g) then
           (if cy + 1 < int (sizeY g) then firstOccupied g 0 (cy + 1) else Inl AssertionFailed)
         else firstOccupied g (cx + 1) cy)"
  by pat_completeness auto
termination
  by (relation "measures [\<lambda>(g, cx, cy). nat (int (sizeY g) - cy), \<lambda>(g, cx, cy). nat (int (sizeX g) - cx)]")
     (auto simp: cellByIndex_def split: if_splits)

declare firstOccupied.simps [simp del]

text \<open>Step 2: the walk. The two nested \<^verbatim>\<open>for\<close> loops visit the neighbourhood with
  \<open>ix\<close> outermost and stop at the first border cell.\<close>

definition neighbourhood :: "(int \<times> int) list" where
  "neighbourhood = [(ix, iy). ix \<leftarrow> [- 1, 0, 1], iy \<leftarrow> [- 1, 0, 1]]"

definition nextBorder :: "Grid \<Rightarrow> int \<Rightarrow> int \<Rightarrow> (int \<times> int) option" where
  "nextBorder g cx cy =
    map_option (\<lambda>(ix, iy). (cx + ix, cy + iy))
      (find (\<lambda>(ix, iy). lambdaCellIsBorder g (cx + ix) (cy + iy)) neighbourhood)"

definition markVisited :: "Grid \<Rightarrow> int \<Rightarrow> int \<Rightarrow> Grid" where
  "markVisited g cx cy =
    (case cellByIndex g cx cy of None \<Rightarrow> g | Some c \<Rightarrow> writeCell g c CELL_VISITED)"

lemma visited_not_occupied: "CELL_VISITED \<noteq> CELL_OCCUPIED"
  by (simp add: CELL_VISITED_def CELL_OCCUPIED_def)

lemma nextBorder_border: "nextBorder g cx cy = Some (a, b) \<Longrightarrow> lambdaCellIsBorder g a b"
  by (auto simp: nextBorder_def find_Some_iff)

lemma border_countOcc:
  "lambdaCellIsBorder g a b \<Longrightarrow> Suc (countOcc (markVisited g a b)) = countOcc g"
  by (auto simp: lambdaCellIsBorder_def markVisited_def countOcc_def writeCell_def
      cellByIndex_def Let_def count_list_update visited_not_occupied
      split: option.splits if_splits)

function traceContour ::
  "Grid \<Rightarrow> int \<Rightarrow> int \<Rightarrow> (real \<times> real) list \<Rightarrow> error + ((real \<times> real) list \<times> Grid)" where
  "traceContour g cx cy p =
    (case cellByIndex g cx cy of
       None \<Rightarrow> Inl AssertionFailed
     | Some c \<Rightarrow>
         (case nextBorder (writeCell g c CELL_VISITED) cx cy of
            None \<Rightarrow> Inr (p @ [(idx2x g cx, idx2y g cy)], writeCell g c CELL_VISITED)
          | Some n \<Rightarrow>
              traceContour (writeCell g c CELL_VISITED) (fst n) (snd n)
                (p @ [(idx2x g cx, idx2y g cy)])))"
  by pat_completeness auto
termination
proof (relation "measure (\<lambda>(g, cx, cy, p). countOcc (markVisited g cx cy))", goal_cases)
  case 1
  then show ?case by simp
next
  case (2 g cx cy p c n)
  then have "lambdaCellIsBorder (writeCell g c CELL_VISITED) (fst n) (snd n)"
    by (cases n) (auto dest: nextBorder_border)
  from border_countOcc[OF this] 2 show ?case
    by (simp add: markVisited_def)
qed

declare traceContour.simps [simp del]

definition gridContour :: "Grid \<Rightarrow> error + ((real \<times> real) list \<times> Grid)" where
  "gridContour g =
    (case firstOccupied g 0 0 of
       Inl e \<Rightarrow> Inl e
     | Inr (cx, cy) \<Rightarrow> traceContour g cx cy [])"

subsection \<open>The shape object\<close>

type_synonym TPoint2D = "real \<times> real"

type_synonym TPoint3Df = "real \<times> real \<times> real"




text \<open>The members \<^verbatim>\<open>contour_\<close>, \<^verbatim>\<open>grid_\<close>, \<^verbatim>\<open>zMin_\<close> and \<^verbatim>\<open>zMax_\<close> of
  \<^verbatim>\<open>Shape2p5\<close> (a name cannot end in an underscore here); the first two are
  \<^verbatim>\<open>std::optional\<close>s. A method that changes the object returns the new object; a method
  that throws returns the error, together with the object it leaves behind where it has
  changed a member that outlives the computation before it throws (\<^verbatim>\<open>buildAddPoint\<close>).\<close>

record Shape2p5 =
  contour :: "TPoint2D list option"
  grid :: "Grid option"
  zMin :: real
  zMax :: real

text \<open>The two overloads of \<^verbatim>\<open>mergeWith\<close>. What remains of each body after the
  preprocessor has removed its \<^verbatim>\<open>#if 0\<close> block is the assertion alone.\<close>

definition mergeWith :: "Shape2p5 \<Rightarrow> Shape2p5 \<Rightarrow> error + Shape2p5" where
  "mergeWith this s =
    (case contour s of
       None \<Rightarrow> Inl UndefinedBehaviour
     | Some c \<Rightarrow> if c = [] then Inl AssertionFailed else Inr this)"

definition mergeWith_pts :: "Shape2p5 \<Rightarrow> TPoint3Df list \<Rightarrow> error + Shape2p5" where
  "mergeWith_pts this pts =
    (case contour this of
       None \<Rightarrow> Inl UndefinedBehaviour
     | Some c \<Rightarrow> if c = [] then Inl AssertionFailed else Inr this)"

definition FLT_MAX :: real where
  "FLT_MAX = 340282346638528859811704183484516925440"

text \<open>\<^verbatim>\<open>buildInit\<close>. The grid is made by the container's constructor, here \<open>newGrid\<close>,
  from the padded bounding box and the resolution, and then filled. The result is \<open>None\<close>
  when \<^verbatim>\<open>numCells\<close> is zero: the resolution is then not a finite number.\<close>

definition buildInit ::
  "(real \<Rightarrow> real \<Rightarrow> real \<Rightarrow> real \<Rightarrow> real \<Rightarrow> Grid) \<Rightarrow> TPoint2D \<Rightarrow> TPoint2D \<Rightarrow> int \<Rightarrow>
     Shape2p5 \<Rightarrow> Shape2p5 option" where
  "buildInit newGrid bbMin bbMax numCells sh =
    (case fdiv (sqrt ((fst bbMax - fst bbMin)\<^sup>2 + (snd bbMax - snd bbMin)\<^sup>2)) (of_int numCells) of
       None \<Rightarrow> None
     | Some r \<Rightarrow>
         (let b = r * (3 / 2);
              g = newGrid (fst bbMin - b) (fst bbMax + b) (snd bbMin - b) (snd bbMax + b) r
          in Some (sh\<lparr> contour := None,
                        grid := Some (g\<lparr>cells := map (\<lambda>_. CELL_UNDEFINED) (cells g)\<rparr>),
                        zMin := FLT_MAX,
                        zMax := - FLT_MAX \<rparr>)))"













text \<open>\<^verbatim>\<open>internalGridFloodFill\<close> and \<^verbatim>\<open>internalGridContour\<close> on the object: each asserts
  that the grid exists and works on it in place.\<close>

definition internalGridFloodFill :: "Shape2p5 \<Rightarrow> error + Shape2p5" where
  "internalGridFloodFill sh =
    (case grid sh of
       None \<Rightarrow> Inl AssertionFailed
     | Some g \<Rightarrow> Inr (sh\<lparr>grid := Some (seedFill g)\<rparr>))"

definition internalGridContour :: "Shape2p5 \<Rightarrow> error + (TPoint2D list \<times> Shape2p5)" where
  "internalGridContour sh =
    (case grid sh of
       None \<Rightarrow> Inl AssertionFailed
     | Some g \<Rightarrow>
         (case gridContour g of
            Inl e \<Rightarrow> Inl e
          | Inr (p, g') \<Rightarrow> Inr (p, sh\<lparr>grid := Some g'\<rparr>)))"

text \<open>\<^verbatim>\<open>computeShape\<close>: the raw contour is computed and then only drawn into the debug
  scene (which is not modelled); the contour stored is the fixed square.\<close>

definition computeShape :: "Shape2p5 \<Rightarrow> error + Shape2p5" where
  "computeShape sh =
    (if grid sh = None then Inl AssertionFailed
     else if contour sh \<noteq> None then Inl AssertionFailed
     else (case internalGridFloodFill sh of
             Inl e \<Rightarrow> Inl e
           | Inr sh1 \<Rightarrow>
              (case internalGridContour sh1 of
                 Inl e \<Rightarrow> Inl e
               | Inr (rawGridContour, sh2) \<Rightarrow>
                   Inr (sh2\<lparr> contour := Some [(- (1 / 4), - (1 / 4)), (- (1 / 4), 1 / 4),
                                                (1 / 4, 1 / 4), (1 / 4, - (1 / 4))],
                              grid := None \<rparr>))))"

definition getContour :: "Shape2p5 \<Rightarrow> error + (TPoint2D list \<times> Shape2p5)" where
  "getContour sh =
    (case contour sh of
       Some c \<Rightarrow> Inr (c, sh)
     | None \<Rightarrow>
         (case computeShape sh of
            Inl e \<Rightarrow> Inl e
          | Inr sh' \<Rightarrow>
              (case contour sh' of
                 None \<Rightarrow> Inl UndefinedBehaviour
               | Some c \<Rightarrow> Inr (c, sh'))))"

definition setShapeManual :: "Shape2p5 \<Rightarrow> TPoint2D list \<Rightarrow> real \<Rightarrow> real \<Rightarrow> Shape2p5" where
  "setShapeManual sh c zLo zHi =
    sh\<lparr> grid := None, contour := Some c, zMin := zLo, zMax := zHi \<rparr>"

section \<open>Properties of the tire friction model\<close>

subsection \<open>Test data\<close>

definition demo_wheel :: "real \<Rightarrow> real \<Rightarrow> real \<Rightarrow> Wheel" where
  "demo_wheel wx wy om =
     \<lparr> wheel_x = wx, wheel_y = wy, wheel_yaw = 0, diameter = 1, wheel_width = 1 / 5,
       wheel_mass = 10, Iyy = 4, phi = 0, wheel_w = om \<rparr>"

text \<open>A car of 1000 kg with its wheels at \<open>(\<plusminus>1, \<plusminus>1)\<close> around the centre of mass (rear-left,
  rear-right, front-left, front-right), moving forward at \<open>vx\<close> with lateral acceleration
  \<open>ay\<close>, under a gravity of 10.\<close>

definition demo_car :: "real \<Rightarrow> real \<Rightarrow> Vehicle" where
  "demo_car vx ay =
     \<lparr> vel_vx = vx, vel_vy = 0, vel_omega = 0, chassisMass = 1000, gravity = 10,
       com_x = 0, com_y = 0,
       wheels = [demo_wheel (- 1) 1 0, demo_wheel (- 1) (- 1) 0,
                 demo_wheel 1 1 0, demo_wheel 1 (- 1) 0],
       linAcc_x = 0, linAcc_y = ay \<rparr>"

text \<open>The same car with both front wheels on the centre line.\<close>

definition centreline_car :: Vehicle where
  "centreline_car = (demo_car 0 0)\<lparr>wheels :=
      [demo_wheel (- 1) 1 0, demo_wheel (- 1) (- 1) 0, demo_wheel 1 0 0, demo_wheel 1 0 0]\<rparr>"

definition demo_input :: "int \<Rightarrow> real \<Rightarrow> FrictionInput" where
  "demo_input k om =
     \<lparr> wheel = demo_wheel 1 (- 1) om, motorTorque = 2, dt = 1 / 100, wheel_index = k \<rparr>"

lemmas demo_defs = demo_car_def demo_wheel_def demo_input_def centreline_car_def

lemmas geom_defs = Axf_def Axr_def wheel_pos_def wheelbase_def axle_a1_def axle_a2_def
  long_term_def lat_term_def hcog_def

lemma afs_pos: "0 < afs"
  by (simp add: afs_def)

lemma miS_zero: "0 < x0 \<Longrightarrow> miS 0 x0 = 0"
  by (simp add: miS_def miH_def)

lemma demo_Fz: "Fz (demo_car vx ay) 3 = Inr (Some (25 * 10 * (10 - (2 / 5) * ay)))"
  by (simp add: Fz_def demo_defs geom_defs fdiv_def)

lemma demo_vxT: "vxT (demo_car vx ay) (demo_input 3 om) = vx"
  by (simp add: vxT_def demo_defs this_pos_def wheel_pos_def)

lemma demo_radius: "radius (demo_input k om) = 1 / 2"
  by (simp add: radius_def demo_defs)

lemma demo_slip_rolling: "slip (demo_car 1 ay) (demo_input 3 2) = Some 0"
  by (simp add: slip_def demo_vxT demo_radius) (simp add: demo_defs miH_def)


lemma demo_sideslip: "sideslip (demo_car 1 ay) (demo_input 3 om) = 0"
  by (simp add: sideslip_def this_pos_def wheel_pos_def atan2_def demo_defs)

lemma demo_root:
  "fsqrt (1 - Csaf default_params *
            (miS (sideslip (demo_car 1 ay) (demo_input 3 om)) afs / afs)\<^sup>2) = Some 1"
  by (simp add: demo_sideslip miS_zero afs_pos fsqrt_def)

subsection \<open>The saturation function\<close>

text \<open>What \<^verbatim>\<open>miS\<close> computes for a positive bound: the identity strictly inside the bound,
  zero on it, and the bound itself, with a positive sign, beyond it on either side.\<close>

lemma miS_cases:
  "0 < x0 \<Longrightarrow> miS x x0 = (if \<bar>x\<bar> < x0 then x else if \<bar>x\<bar> = x0 then 0 else x0)"
  by (auto simp: miS_def miH_def)

text \<open>
  Claim C1: for every real \<open>x\<close> and every \<open>x0 > 0\<close>, the saturation function returns \<open>x\<close>
  when \<open>\<bar>x\<bar> \<le> x0\<close> and \<open>x0 * sgn x\<close> when \<open>\<bar>x\<bar> > x0\<close>.
  The function documented as the saturation function does not do this: at \<open>x = -2\<close>,
  \<open>x0 = 1\<close> it returns \<open>1\<close> where a saturation returns \<open>-1\<close>, and on the bound, at
  \<open>x = x0 = 1\<close>, it returns \<open>0\<close> where a saturation returns \<open>1\<close>.
\<close>

theorem miS_not_a_saturation: "miS (- 2) 1 = 1 \<and> miS 1 1 = 0"
  by (simp add: miS_def miH_def)

subsection \<open>The vertical load\<close>






subsection \<open>The wheel index\<close>

text \<open>
  Claim C6, as stated: every input whose wheel index is outside \<open>{0, 1, 2, 3}\<close> fails with
  the invalid-wheel-index error. It fails for index 4 on the car whose front wheels are on
  the centre line: the front axle width is zero, and the assertion on it, which comes
  before the test of the index, is the error raised.
\<close>

theorem invalid_index_behind_assertion_counterexample:
  "evaluate_friction default_params centreline_car (demo_input 4 0) = Inl AssertionFailed \<and>
   AssertionFailed \<noteq> InvalidWheelIndex"
  by (simp add: evaluate_friction_def max_friction_def Fz_def demo_defs Axf_def wheel_pos_def)

text \<open>
  Claim C6, amended: for every friction input whose wheel index is outside \<open>{0, 1, 2, 3}\<close>,
  on a vehicle with at least four wheels, \<^verbatim>\<open>evaluate_friction\<close> returns no force but fails:
  with the invalid-wheel-index error when the axle widths \<open>Axf\<close> and \<open>Axr\<close> are positive, and
  with the failure of the assertion on them otherwise.
\<close>

theorem invalid_wheel_index_fails:
  "wheel_index inp \<notin> {0, 1, 2, 3} \<Longrightarrow> 4 \<le> length (wheels v) \<Longrightarrow>
   evaluate_friction P v inp =
     (if 0 < Axf v \<and> 0 < Axr v then Inl InvalidWheelIndex else Inl AssertionFailed)"
  by (auto simp: evaluate_friction_def max_friction_def Fz_def)

text \<open>Index 4 on the test car, and index \<open>-1\<close> on the car with its front wheels on the centre
  line.\<close>

theorem invalid_wheel_index_fails_witness:
  "wheel_index (demo_input 4 0) \<notin> {0, 1, 2, 3} \<and>
   4 \<le> length (wheels (demo_car 0 0)) \<and> 0 < Axf (demo_car 0 0) \<and> 0 < Axr (demo_car 0 0) \<and>
   evaluate_friction default_params (demo_car 0 0) (demo_input 4 0) = Inl InvalidWheelIndex \<and>
   4 \<le> length (wheels centreline_car) \<and> \<not> 0 < Axf centreline_car \<and>
   evaluate_friction default_params centreline_car (demo_input (- 1) 0) = Inl AssertionFailed"
proof -
  have k: "wheel_index (demo_input 4 0) \<notin> {0, 1, 2, 3}"
    "wheel_index (demo_input (- 1) 0) \<notin> {0, 1, 2, 3}"
    by (simp_all add: demo_input_def)
  have g: "4 \<le> length (wheels (demo_car 0 0))" "0 < Axf (demo_car 0 0)" "0 < Axr (demo_car 0 0)"
    by (simp_all add: demo_defs geom_defs)
  have c: "4 \<le> length (wheels centreline_car)" "\<not> 0 < Axf centreline_car"
    by (simp_all add: demo_defs geom_defs)
  from invalid_wheel_index_fails[OF k(1) g(1), of default_params]
    invalid_wheel_index_fails[OF k(2) c(1), of default_params] k g c
  show ?thesis by simp
qed

subsection \<open>The spin update\<close>

text \<open>
  Claim C7: for every wheel with inertia \<open>I > 0\<close>, drive torque \<open>T\<close>, time step \<open>dt\<close> and
  zero longitudinal friction force, one call to \<^verbatim>\<open>evaluate_friction\<close> returns and sets the
  wheel's angular velocity to exactly the old velocity plus \<open>(T / I) * dt\<close>.
\<close>

theorem spin_update_euler:
  "0 < Iyy (wheel inp) \<Longrightarrow> max_friction v (wheel_index inp) = Inr mf \<Longrightarrow>
   wheel_long_friction P v inp mf = Some 0 \<Longrightarrow>
   \<exists>out. evaluate_friction P v inp = Inr out \<and>
     new_w out = Some (wheel_w (wheel inp) + (motorTorque inp / Iyy (wheel inp)) * dt inp)"
  by (simp add: evaluate_friction_def actual_wheel_alpha_def fdiv_def Let_def)

text \<open>A rolling wheel (radius \<open>1/2\<close>, angular velocity 2, car speed 1) has no slip and so no
  longitudinal force; with torque 2, inertia 4 and a step of \<open>1/100\<close> its velocity becomes
  \<open>2 + (2 / 4) * (1 / 100)\<close>.\<close>

theorem spin_update_euler_witness:
  "0 < Iyy (wheel (demo_input 3 2)) \<and>
   max_friction (demo_car 1 0) (wheel_index (demo_input 3 2)) = Inr (Some 2500) \<and>
   wheel_long_friction default_params (demo_car 1 0) (demo_input 3 2) (Some 2500) = Some 0 \<and>
   (\<exists>out. evaluate_friction default_params (demo_car 1 0) (demo_input 3 2) = Inr out \<and>
      new_w out = Some (2 + (2 / 4) * (1 / 100)))"
proof -
  have i: "0 < Iyy (wheel (demo_input 3 2))"
    by (simp add: demo_defs)
  have k: "wheel_index (demo_input 3 2) = 3"
    by (simp add: demo_input_def)
  have m: "max_friction (demo_car 1 0) (wheel_index (demo_input 3 2)) = Inr (Some 2500)"
    by (simp add: k max_friction_def demo_Fz)
  have z: "miS 0 (ss default_params) = 0"
    by (simp add: miS_zero default_params_def)
  have l: "wheel_long_friction default_params (demo_car 1 0) (demo_input 3 2) (Some 2500) = Some 0"
    by (simp add: wheel_long_friction_def demo_slip_rolling demo_root z)
  have d: "wheel_w (wheel (demo_input 3 2)) = 2" "motorTorque (demo_input 3 2) = 2"
    "Iyy (wheel (demo_input 3 2)) = 4" "dt (demo_input 3 2) = 1 / 100"
    by (simp_all add: demo_defs)
  from spin_update_euler[OF i m l] i m l show ?thesis
    by (simp add: d)
qed

subsection \<open>The slip ratio\<close>

text \<open>
  Claim C8: for every input in which the wheel surface speed equals the contact-point
  longitudinal velocity (angular velocity times radius equals \<open>vxT\<close>), the longitudinal
  slip ratio used by the friction stages is exactly 0.
\<close>

theorem slip_zero_at_equal_speeds:
  "radius inp * wheel_w (wheel inp) = vxT v inp \<Longrightarrow> slip v inp = Some 0"
  by (simp add: slip_def miH_def Let_def)

theorem slip_zero_at_equal_speeds_witness:
  "radius (demo_input 3 2) * wheel_w (wheel (demo_input 3 2)) = vxT (demo_car 1 0) (demo_input 3 2) \<and>
   slip (demo_car 1 0) (demo_input 3 2) = Some 0"
proof -
  have h: "radius (demo_input 3 2) * wheel_w (wheel (demo_input 3 2)) =
           vxT (demo_car 1 0) (demo_input 3 2)"
    by (simp add: demo_vxT demo_radius) (simp add: demo_defs)
  from h slip_zero_at_equal_speeds[OF h] show ?thesis by simp
qed

section \<open>Properties of the shape reducer\<close>

subsection \<open>What the flood fill changes\<close>

text \<open>\<open>fills g g'\<close>: the grid \<open>g'\<close> is \<open>g\<close> with some undefined cells turned free and
  nothing else changed. Every stage of the flood fill is of this kind.\<close>

definition fills :: "Grid \<Rightarrow> Grid \<Rightarrow> bool" where
  "fills g g' \<longleftrightarrow>
    (\<exists>cs. g' = g\<lparr>cells := cs\<rparr> \<and>
          list_all2 (\<lambda>c c'. c' = c \<or> (c = CELL_UNDEFINED \<and> c' = CELL_FREE)) (cells g) cs)"

lemma fills_refl: "fills g g"
  unfolding fills_def by (rule exI[of _ "cells g"]) (simp add: list_all2_refl)

lemma fills_trans: "fills a b \<Longrightarrow> fills b c \<Longrightarrow> fills a c"
  unfolding fills_def
proof (elim exE conjE)
  fix cs ds
  assume b: "b = a\<lparr>cells := cs\<rparr>" and c: "c = b\<lparr>cells := ds\<rparr>"
    and p: "list_all2 (\<lambda>c c'. c' = c \<or> (c = CELL_UNDEFINED \<and> c' = CELL_FREE)) (cells a) cs"
    and q: "list_all2 (\<lambda>c c'. c' = c \<or> (c = CELL_UNDEFINED \<and> c' = CELL_FREE)) (cells b) ds"
  from b q have q': "list_all2 (\<lambda>c c'. c' = c \<or> (c = CELL_UNDEFINED \<and> c' = CELL_FREE)) cs ds"
    by simp
  have "list_all2 (\<lambda>c c'. c' = c \<or> (c = CELL_UNDEFINED \<and> c' = CELL_FREE)) (cells a) ds"
    using p q' by (rule list_all2_trans[rotated]) auto
  moreover from b c have "c = a\<lparr>cells := ds\<rparr>" by simp
  ultimately show "\<exists>es. c = a\<lparr>cells := es\<rparr> \<and>
      list_all2 (\<lambda>c c'. c' = c \<or> (c = CELL_UNDEFINED \<and> c' = CELL_FREE)) (cells a) es"
    by blast
qed

lemma fills_sizes:
  "fills g g' \<Longrightarrow> sizeX g' = sizeX g \<and> sizeY g' = sizeY g \<and> length (cells g') = length (cells g)"
  by (auto simp: fills_def dest: list_all2_lengthD)

lemma fills_cellByIndex: "fills g g' \<Longrightarrow> cellByIndex g' x y = cellByIndex g x y"
  by (auto simp: cellByIndex_def Let_def dest!: fills_sizes)

lemma fills_keeps:
  "fills g g' \<Longrightarrow> i < length (cells g) \<Longrightarrow> cells g ! i \<noteq> CELL_UNDEFINED \<Longrightarrow>
   cells g' ! i = cells g ! i"
  by (auto simp: fills_def dest: list_all2_nthD)

lemma free_not_occupied: "CELL_FREE \<noteq> CELL_OCCUPIED"
  by (simp add: CELL_FREE_def CELL_OCCUPIED_def)

lemma fills_no_occupied:
  assumes "fills g g'" "CELL_OCCUPIED \<notin> set (cells g)"
  shows "CELL_OCCUPIED \<notin> set (cells g')"
proof
  assume "CELL_OCCUPIED \<in> set (cells g')"
  then obtain i where i: "i < length (cells g')" "cells g' ! i = CELL_OCCUPIED"
    by (auto simp: in_set_conv_nth)
  from assms(1) obtain cs where cs: "cells g' = cs"
    "list_all2 (\<lambda>c c'. c' = c \<or> (c = CELL_UNDEFINED \<and> c' = CELL_FREE)) (cells g) cs"
    by (auto simp: fills_def)
  from cs i have "cells g' ! i = cells g ! i \<or> cells g' ! i = CELL_FREE"
    by (auto dest: list_all2_nthD2)
  with i free_not_occupied have "cells g ! i = CELL_OCCUPIED" by auto
  moreover from cs i have "i < length (cells g)" by (auto dest: list_all2_lengthD)
  ultimately show False using assms(2) by (auto simp: in_set_conv_nth)
qed

lemma fills_Set_cell: "Inside g x y \<Longrightarrow> fills g (Set_cell g x y)"
  unfolding fills_def
  by (rule exI[of _ "(cells g)[the (cellByIndex g x y) := CELL_FREE]"])
     (auto simp: Inside_def Set_cell_def writeCell_def list_all2_conv_all_nth nth_list_update
       cellByIndex_def Let_def split: if_splits option.splits)

lemma fills_extend_left: "extend_left g lx y = (g', lx') \<Longrightarrow> fills g g'"
proof (induction g lx y arbitrary: g' lx' rule: extend_left.induct)
  case (1 g lx y)
  show ?case
  proof (cases "Inside g (lx - 1) y")
    case True
    with "1.prems" have "extend_left (Set_cell g (lx - 1) y) (lx - 1) y = (g', lx')"
      by (simp add: extend_left.simps[of g])
    from "1.IH"[OF True this] fills_Set_cell[OF True] show ?thesis
      by (blast intro: fills_trans)
  next
    case False
    with "1.prems" show ?thesis by (simp add: extend_left.simps[of g] fills_refl)
  qed
qed

lemma fills_extend_right: "extend_right g x y = (g', x') \<Longrightarrow> fills g g'"
proof (induction g x y arbitrary: g' x' rule: extend_right.induct)
  case (1 g x y)
  show ?case
  proof (cases "Inside g x y")
    case True
    with "1.prems" have "extend_right (Set_cell g x y) (x + 1) y = (g', x')"
      by (simp add: extend_right.simps[of g])
    from "1.IH"[OF True this] fills_Set_cell[OF True] show ?thesis
      by (blast intro: fills_trans)
  next
    case False
    with "1.prems" show ?thesis by (simp add: extend_right.simps[of g] fills_refl)
  qed
qed

lemma fills_fill_step: "fill_step g x y s = (g2, s2) \<Longrightarrow> fills g g2"
  by (auto simp: fill_step_def split: prod.splits
      intro: fills_trans dest: fills_extend_left fills_extend_right)

lemma fills_fill_loop: "fills g (fill_loop g s)"
proof (induction g s rule: fill_loop.induct)
  case (1 g)
  show ?case by (simp add: fills_refl)
next
  case (2 g x y s)
  obtain g2 s2 where st: "fill_step g x y s = (g2, s2)"
    by (cases "fill_step g x y s")
  from "2.IH"[OF st[symmetric]] fills_fill_step[OF st] st show ?case
    by (auto intro: fills_trans)
qed

lemma fills_seedFill: "fills g (seedFill g)"
  by (simp add: seedFill_def fills_refl fills_fill_loop del: fill_loop.simps)

lemma seedFill_cells: "seedFill g = g\<lparr>cells := cells (seedFill g)\<rparr>"
  using fills_seedFill[of g] by (auto simp: fills_def)

text \<open>Once the fill has started, the seed cell is free at the end.\<close>

lemma seed_filled:
  assumes "Inside g 0 0"
  shows "\<not> Inside (fill_loop g [(0, 0)]) 0 0"
proof -
  from assms have c0: "cellByIndex g 0 0 = Some 0" and l0: "0 < length (cells g)"
    by (auto simp: Inside_def cellByIndex_def Let_def split: if_splits option.splits)
  have nl: "\<not> Inside g (0 - 1) 0" by (simp add: Inside_def)
  then have el: "extend_left g 0 0 = (g, 0)" by (simp add: extend_left.simps[of g])
  obtain g2 x' where er: "extend_right g 0 0 = (g2, x')" by (cases "extend_right g 0 0")
  with assms have er': "extend_right (Set_cell g 0 0) (0 + 1) 0 = (g2, x')"
    by (simp add: extend_right.simps[of g])
  from assms c0 l0 have s0: "cells (Set_cell g 0 0) ! 0 = CELL_FREE"
    and sl: "0 < length (cells (Set_cell g 0 0))"
    by (auto simp: Set_cell_def Inside_def writeCell_def split: if_splits)
  obtain s2 where st: "fill_step g 0 0 [] = (g2, s2)"
    by (simp add: fill_step_def el er)
  have f1: "fills (Set_cell g 0 0) g2" by (rule fills_extend_right[OF er'])
  have f2: "fills g2 (fill_loop g2 s2)" by (rule fills_fill_loop)
  have f: "fills (Set_cell g 0 0) (fill_loop g2 s2)" by (rule fills_trans[OF f1 f2])
  from fills_keeps[OF f sl] s0 free_not_undefined
  have fin: "cells (fill_loop g2 s2) ! 0 = CELL_FREE" by simp
  have lp: "fill_loop g [(0, 0)] = fill_loop g2 s2" by (simp add: st)
  have "fills g (fill_loop g2 s2)" using fills_fill_loop[of g "[(0, 0)]"] lp by simp
  from fills_cellByIndex[OF this, of 0 0] c0
  have "cellByIndex (fill_loop g2 s2) 0 0 = Some 0" by simp
  with fin free_not_undefined show ?thesis
    unfolding lp by (simp add: Inside_def)
qed

lemma seedFill_idempotent: "seedFill (seedFill g) = seedFill g"
proof (cases "Inside g 0 0")
  case True
  then have "\<not> Inside (seedFill g) 0 0"
    by (simp add: seedFill_def seed_filled del: fill_loop.simps)
  then show ?thesis by (simp add: seedFill_def[of "seedFill g"])
next
  case False
  then show ?thesis by (simp add: seedFill_def)
qed

subsection \<open>The scan of a grid without occupied cells\<close>

definition wellFormed :: "Grid \<Rightarrow> bool" where
  "wellFormed g \<longleftrightarrow> length (cells g) = sizeX g * sizeY g"

lemma index_in_range:
  assumes "(x::nat) < nx" "y < ny"
  shows "x + y * nx < nx * ny"
proof -
  have "x + y * nx < nx + y * nx" using assms(1) by simp
  also have "\<dots> = (Suc y) * nx" by simp
  also have "\<dots> \<le> ny * nx" using assms(2) by (intro mult_le_mono1) simp
  finally show ?thesis by (simp add: mult.commute)
qed

lemma cellByIndex_in_range:
  assumes "wellFormed g" "0 \<le> cx" "cx < int (sizeX g)" "0 \<le> cy" "cy < int (sizeY g)"
  shows "cellByIndex g cx cy = Some (nat cx + nat cy * sizeX g)"
proof -
  from assms have "nat cx < sizeX g" "nat cy < sizeY g" by auto
  from index_in_range[OF this] assms(1) have "nat cx + nat cy * sizeX g < length (cells g)"
    by (simp add: wellFormed_def)
  with assms show ?thesis by (simp add: cellByIndex_def)
qed

lemma firstOccupied_none:
  "wellFormed g \<Longrightarrow> CELL_OCCUPIED \<notin> set (cells g) \<Longrightarrow>
   0 \<le> cx \<Longrightarrow> cx < int (sizeX g) \<Longrightarrow> 0 \<le> cy \<Longrightarrow> cy < int (sizeY g) \<Longrightarrow>
   firstOccupied g cx cy = Inl AssertionFailed"
proof (induction g cx cy rule: firstOccupied.induct)
  case (1 g cx cy)
  let ?c = "nat cx + nat cy * sizeX g"
  have c: "cellByIndex g cx cy = Some ?c"
    using "1.prems" by (simp add: cellByIndex_in_range)
  then have "?c < length (cells g)"
    by (auto simp: cellByIndex_def Let_def split: if_splits)
  with "1.prems"(2) have no: "cells g ! ?c \<noteq> CELL_OCCUPIED"
    by (auto simp: in_set_conv_nth)
  show ?case
  proof (cases "cx + 1 \<ge> int (sizeX g)")
    case True
    show ?thesis
    proof (cases "cy + 1 < int (sizeY g)")
      case False
      with True c no show ?thesis by (simp add: firstOccupied.simps[of g cx cy])
    next
      case nxt: True
      from "1.prems" nxt have "firstOccupied g 0 (cy + 1) = Inl AssertionFailed"
        by (intro "1.IH"(1)[OF c no True nxt]) auto
      with True nxt c no show ?thesis by (simp add: firstOccupied.simps[of g cx cy])
    qed
  next
    case False
    from "1.prems" False have "firstOccupied g (cx + 1) cy = Inl AssertionFailed"
      by (intro "1.IH"(2)[OF c no False]) auto
    with False c no show ?thesis by (simp add: firstOccupied.simps[of g cx cy])
  qed
qed

lemma fills_wellFormed: "fills g g' \<Longrightarrow> wellFormed g \<Longrightarrow> wellFormed g'"
  by (auto simp: wellFormed_def dest!: fills_sizes)

subsection \<open>Test data\<close>

text \<open>A grid of unit cells whose cell \<open>(i, j)\<close> covers \<open>[i, i + 1) \<times> [j, j + 1)\<close>, and a shape
  under construction on the 3 by 3 grid.\<close>

definition demo_grid :: "nat \<Rightarrow> nat \<Rightarrow> 8 word list \<Rightarrow> Grid" where
  "demo_grid nx ny cs =
     \<lparr> sizeX = nx, sizeY = ny, resolution = 1, x_min = 0, y_min = 0, cells = cs \<rparr>"

definition demo_shape :: "8 word list \<Rightarrow> Shape2p5" where
  "demo_shape cs = \<lparr> contour = None, grid = Some (demo_grid 3 3 cs), zMin = FLT_MAX, zMax = - FLT_MAX \<rparr>"

lemma demo_fill_cells:
  "cells (seedFill (demo_grid 3 3 [0x80, 0x80, 0x80, 0x80, 0, 0x80, 0x80, 0x80, 0x80])) =
     [0xff, 0xff, 0xff, 0xff, 0, 0xff, 0xff, 0xff, 0xff]"
  by code_simp

lemma demo_fill:
  "seedFill (demo_grid 3 3 [0x80, 0x80, 0x80, 0x80, 0, 0x80, 0x80, 0x80, 0x80]) =
     demo_grid 3 3 [0xff, 0xff, 0xff, 0xff, 0, 0xff, 0xff, 0xff, 0xff]"
  by (subst seedFill_cells) (simp add: demo_fill_cells, simp add: demo_grid_def)

subsection \<open>The empty shape\<close>

text \<open>
  Claim C4: for every build sequence in which no cell is ever marked occupied, computing
  the contour fails. The shape is under construction (its grid exists, with at least one
  cell and a cell vector that matches its sizes, and no contour is cached) and no cell of
  the grid is occupied; then \<^verbatim>\<open>getContour\<close> fails, with the assertion of the scan for the
  first occupied cell.
\<close>

theorem empty_grid_contour_fails:
  assumes "grid sh = Some g" "contour sh = None" "0 < sizeX g" "0 < sizeY g"
    "length (cells g) = sizeX g * sizeY g" "CELL_OCCUPIED \<notin> set (cells g)"
  shows "getContour sh = Inl AssertionFailed"
proof -
  let ?g = "seedFill g"
  have f: "fills g ?g" by (rule fills_seedFill)
  from assms(5) have "wellFormed g" by (simp add: wellFormed_def)
  with f have w: "wellFormed ?g" by (rule fills_wellFormed)
  from f assms(6) have n: "CELL_OCCUPIED \<notin> set (cells ?g)" by (rule fills_no_occupied)
  from fills_sizes[OF f] assms(3,4) have s: "0 < int (sizeX ?g)" "0 < int (sizeY ?g)" by simp_all
  have "firstOccupied ?g 0 0 = Inl AssertionFailed"
    using w n s by (intro firstOccupied_none) simp_all
  then have "gridContour ?g = Inl AssertionFailed" by (simp add: gridContour_def)
  with assms(1,2) show ?thesis
    by (simp add: getContour_def computeShape_def internalGridFloodFill_def internalGridContour_def)
qed

text \<open>\<^verbatim>\<open>buildInit\<close> leaves a shape under construction with no occupied cell, whatever grid
  the container's constructor makes.\<close>

lemma buildInit_no_occupied:
  assumes "buildInit newGrid bbMin bbMax numCells sh = Some sh'"
  shows "contour sh' = None \<and> (\<exists>g. grid sh' = Some g \<and> CELL_OCCUPIED \<notin> set (cells g))"
proof -
  have "CELL_UNDEFINED \<noteq> CELL_OCCUPIED"
    by (simp add: CELL_UNDEFINED_def CELL_OCCUPIED_def)
  with assms show ?thesis
    by (auto simp: buildInit_def Let_def split: option.splits)
qed

text \<open>The theorem on the 3 by 3 grid as \<^verbatim>\<open>buildInit\<close> leaves it, with nothing added.\<close>

theorem empty_grid_contour_fails_witness:
  "grid (demo_shape (replicate 9 CELL_UNDEFINED)) = Some (demo_grid 3 3 (replicate 9 CELL_UNDEFINED)) \<and>
   contour (demo_shape (replicate 9 CELL_UNDEFINED)) = None \<and>
   0 < sizeX (demo_grid 3 3 (replicate 9 CELL_UNDEFINED)) \<and>
   0 < sizeY (demo_grid 3 3 (replicate 9 CELL_UNDEFINED)) \<and>
   length (cells (demo_grid 3 3 (replicate 9 CELL_UNDEFINED))) =
     sizeX (demo_grid 3 3 (replicate 9 CELL_UNDEFINED)) * sizeY (demo_grid 3 3 (replicate 9 CELL_UNDEFINED)) \<and>
   CELL_OCCUPIED \<notin> set (cells (demo_grid 3 3 (replicate 9 CELL_UNDEFINED))) \<and>
   getContour (demo_shape (replicate 9 CELL_UNDEFINED)) = Inl AssertionFailed"
proof -
  let ?g = "demo_grid 3 3 (replicate 9 CELL_UNDEFINED)"
  let ?sh = "demo_shape (replicate 9 CELL_UNDEFINED)"
  have a: "grid ?sh = Some ?g" "contour ?sh = None" by (simp_all add: demo_shape_def)
  have b: "0 < sizeX ?g" "0 < sizeY ?g" "length (cells ?g) = sizeX ?g * sizeY ?g"
    by (simp_all add: demo_grid_def)
  have c: "CELL_OCCUPIED \<notin> set (cells ?g)"
    by (simp add: demo_grid_def CELL_OCCUPIED_def CELL_UNDEFINED_def)
  from empty_grid_contour_fails[OF a b c] a b c show ?thesis by simp
qed

subsection \<open>The seed of the flood fill\<close>

text \<open>
  Claim C5, as stated: the flood fill fails whenever the seed corner cell is not undefined
  when the fill starts. It does not fail on the grid whose corner cell is occupied: it
  returns, and the shape is as before.
\<close>

theorem occupied_seed_returns_counterexample:
  "internalGridFloodFill (demo_shape [0, 0x80, 0x80, 0x80, 0x80, 0x80, 0x80, 0x80, 0x80]) =
     Inr (demo_shape [0, 0x80, 0x80, 0x80, 0x80, 0x80, 0x80, 0x80, 0x80])"
  by (simp add: internalGridFloodFill_def demo_shape_def seedFill_def Inside_def cellByIndex_def
      demo_grid_def CELL_UNDEFINED_def)

text \<open>
  Claim C5, amended: whenever the seed corner cell of the grid is not undefined when the
  fill starts, the flood fill returns at once without an error and changes no cell.
\<close>

theorem blocked_seed_returns_unchanged:
  "grid sh = Some g \<Longrightarrow> cellByIndex g 0 0 = Some c \<Longrightarrow> cells g ! c \<noteq> CELL_UNDEFINED \<Longrightarrow>
   internalGridFloodFill sh = Inr sh"
  by (simp add: internalGridFloodFill_def seedFill_def Inside_def)

theorem blocked_seed_returns_unchanged_witness:
  "grid (demo_shape [0xff, 0x80, 0x80, 0x80, 0, 0x80, 0x80, 0x80, 0x80]) =
     Some (demo_grid 3 3 [0xff, 0x80, 0x80, 0x80, 0, 0x80, 0x80, 0x80, 0x80]) \<and>
   cellByIndex (demo_grid 3 3 [0xff, 0x80, 0x80, 0x80, 0, 0x80, 0x80, 0x80, 0x80]) 0 0 = Some 0 \<and>
   cells (demo_grid 3 3 [0xff, 0x80, 0x80, 0x80, 0, 0x80, 0x80, 0x80, 0x80]) ! 0 \<noteq> CELL_UNDEFINED \<and>
   internalGridFloodFill (demo_shape [0xff, 0x80, 0x80, 0x80, 0, 0x80, 0x80, 0x80, 0x80]) =
     Inr (demo_shape [0xff, 0x80, 0x80, 0x80, 0, 0x80, 0x80, 0x80, 0x80])"
proof -
  let ?cs = "[0xff, 0x80, 0x80, 0x80, 0, 0x80, 0x80, 0x80, 0x80] :: 8 word list"
  have a: "grid (demo_shape ?cs) = Some (demo_grid 3 3 ?cs)" by (simp add: demo_shape_def)
  have b: "cellByIndex (demo_grid 3 3 ?cs) 0 0 = Some 0"
    by (simp add: cellByIndex_def demo_grid_def)
  have c: "cells (demo_grid 3 3 ?cs) ! 0 \<noteq> CELL_UNDEFINED"
    by (simp add: demo_grid_def CELL_UNDEFINED_def)
  from blocked_seed_returns_unchanged[OF a b c] a b c show ?thesis by simp
qed

subsection \<open>Idempotence of the flood fill\<close>

text \<open>
  Claim C9: the flood fill is idempotent: for every state reached by running
  \<^verbatim>\<open>internalGridFloodFill\<close> once, running it a second time changes no cell.
\<close>

theorem flood_fill_idempotent:
  "internalGridFloodFill sh = Inr sh1 \<Longrightarrow> internalGridFloodFill sh1 = Inr sh1"
  by (auto simp: internalGridFloodFill_def seedFill_idempotent split: option.splits)

theorem flood_fill_idempotent_witness:
  "internalGridFloodFill (demo_shape [0x80, 0x80, 0x80, 0x80, 0, 0x80, 0x80, 0x80, 0x80]) =
     Inr (demo_shape [0xff, 0xff, 0xff, 0xff, 0, 0xff, 0xff, 0xff, 0xff]) \<and>
   internalGridFloodFill (demo_shape [0xff, 0xff, 0xff, 0xff, 0, 0xff, 0xff, 0xff, 0xff]) =
     Inr (demo_shape [0xff, 0xff, 0xff, 0xff, 0, 0xff, 0xff, 0xff, 0xff])"
proof -
  have a: "internalGridFloodFill (demo_shape [0x80, 0x80, 0x80, 0x80, 0, 0x80, 0x80, 0x80, 0x80]) =
     Inr (demo_shape [0xff, 0xff, 0xff, 0xff, 0, 0xff, 0xff, 0xff, 0xff])"
    by (simp add: internalGridFloodFill_def demo_shape_def demo_fill)
  from flood_fill_idempotent[OF a] a show ?thesis by simp
qed

subsection \<open>Rasterization outside the grid\<close>

































subsection \<open>Merging\<close>

definition square_shape :: Shape2p5 where
  "square_shape = \<lparr> contour = Some [(0, 0), (1, 0), (1, 1), (0, 1)], grid = None, zMin = 0, zMax = 1 \<rparr>"

definition far_shape :: Shape2p5 where
  "far_shape = \<lparr> contour = Some [(10, 10), (11, 10), (10, 11)], grid = None, zMin = 2, zMax = 3 \<rparr>"

definition hollow_shape :: Shape2p5 where
  "hollow_shape = \<lparr> contour = Some [], grid = None, zMin = 0, zMax = 1 \<rparr>"

text \<open>Whenever \<^verbatim>\<open>mergeWith\<close> returns, the receiver is what it was.\<close>

lemma mergeWith_keeps_receiver: "mergeWith this s = Inr r \<Longrightarrow> r = this"
  by (auto simp: mergeWith_def split: option.splits if_splits)

lemma mergeWith_checks_argument_only:
  "contour s = Some c \<Longrightarrow> mergeWith this s = (if c = [] then Inl AssertionFailed else Inr this)"
  by (simp add: mergeWith_def)

text \<open>
  Claim C3: for two shapes with non-empty contours \<^verbatim>\<open>mergeWith\<close> replaces the receiver's
  contour by a convex hull of the points of both, and it fails when either contour is empty.
  The function does neither: merging the unit square with a triangle around \<open>(10, 10)\<close>
  leaves the unit square, which does not contain the triangle, and merging into a receiver
  with an empty contour returns without a failure.
\<close>

theorem mergeWith_does_not_merge:
  "mergeWith square_shape far_shape = Inr square_shape \<and>
   contour square_shape = Some [(0, 0), (1, 0), (1, 1), (0, 1)] \<and>
   mergeWith hollow_shape far_shape = Inr hollow_shape"
  by (simp add: mergeWith_def square_shape_def far_shape_def hollow_shape_def)

end
